theory Spec2Isabelle
  imports Complex_Main "HOL-Library.Sublist"
begin

chapter \<open>Definitions\<close>

section \<open>Python strings\<close>

text \<open>
  Text is a list of characters, one \<^typ>\<open>char\<close> per code point; the page texts, labels and
  cell values of the program are ASCII. \<open>str.strip\<close>, \<open>str.upper\<close>, the regular
  expression class \<open>\s\<close> and the operator \<open>in\<close> on strings are written out.
\<close>

definition is_space :: "char \<Rightarrow> bool" where
  "is_space c = (let n = (of_char c :: nat) in (9 \<le> n \<and> n \<le> 13) \<or> (28 \<le> n \<and> n \<le> 32))"

definition strip :: "string \<Rightarrow> string" where
  "strip s = rev (dropWhile is_space (rev (dropWhile is_space s)))"

definition is_lower :: "char \<Rightarrow> bool" where
  "is_lower c = (let n = (of_char c :: nat) in 97 \<le> n \<and> n \<le> 122)"

definition is_upper :: "char \<Rightarrow> bool" where
  "is_upper c = (let n = (of_char c :: nat) in 65 \<le> n \<and> n \<le> 90)"

text \<open>An ASCII letter and its other case differ in bit 5 of the code (\<open>'a' = 'A' + 32\<close>).\<close>

fun to_upper :: "char \<Rightarrow> char" where
  "to_upper (Char b0 b1 b2 b3 b4 b5 b6 b7) =
     (if is_lower (Char b0 b1 b2 b3 b4 b5 b6 b7) then Char b0 b1 b2 b3 b4 False b6 b7
      else Char b0 b1 b2 b3 b4 b5 b6 b7)"

fun to_lower :: "char \<Rightarrow> char" where
  "to_lower (Char b0 b1 b2 b3 b4 b5 b6 b7) =
     (if is_upper (Char b0 b1 b2 b3 b4 b5 b6 b7) then Char b0 b1 b2 b3 b4 True b6 b7
      else Char b0 b1 b2 b3 b4 b5 b6 b7)"

definition lower :: "string \<Rightarrow> string" where
  "lower s = map to_lower s"

definition upper :: "string \<Rightarrow> string" where
  "upper s = map to_upper s"

text \<open>\<open>sub in text\<close>: \<open>sub\<close> occurs in \<open>text\<close> as a contiguous run.\<close>

fun contains :: "'a list \<Rightarrow> 'a list \<Rightarrow> bool" where
  "contains sub [] = (sub = [])"
| "contains sub (c # cs) = (take (length sub) (c # cs) = sub \<or> contains sub cs)"

definition startswith :: "string \<Rightarrow> string \<Rightarrow> bool" where
  "startswith text pre = (take (length pre) text = pre)"

definition endswith :: "string \<Rightarrow> string \<Rightarrow> bool" where
  "endswith text suf = (length suf \<le> length text \<and> drop (length text - length suf) text = suf)"

text \<open>\<open>re.sub(r'\s+', ' ', text)\<close>: every maximal run of whitespace becomes one blank.\<close>

fun collapse_ws :: "string \<Rightarrow> string" where
  "collapse_ws [] = []"
| "collapse_ws [c] = (if is_space c then '' '' else [c])"
| "collapse_ws (c # d # cs) =
     (if is_space c then (if is_space d then collapse_ws (d # cs) else CHR '' '' # collapse_ws (d # cs))
      else c # collapse_ws (d # cs))"

text \<open>Decimal rendering of a natural number, as an f-string prints it.\<close>

definition digit_char :: "nat \<Rightarrow> char" where
  "digit_char n = ''0123456789'' ! n"

function show_nat :: "nat \<Rightarrow> string" where
  "show_nat n = (if n < 10 then [digit_char n] else show_nat (n div 10) @ [digit_char (n mod 10)])"
  by pat_completeness auto
termination
  by (relation "measure id") auto

declare show_nat.simps [simp del]

text \<open>The warning sign that opens every sentinel message (U+26A0 U+FE0F), as its UTF-8 bytes.\<close>

definition warning_sign :: string where
  "warning_sign = [CHR 0xE2, CHR 0x9A, CHR 0xA0, CHR 0xEF, CHR 0xB8, CHR 0x8F]"

section \<open>Exceptions and insertion-ordered dictionaries\<close>

datatype exn =
    TimeoutException string
  | ElementClickInterceptedException string
  | Exception string

fun str_exn :: "exn \<Rightarrow> string" where
  "str_exn (TimeoutException m) = m"
| "str_exn (ElementClickInterceptedException m) = m"
| "str_exn (Exception m) = m"

text \<open>
  A Python \<open>dict\<close> keeps its keys in insertion order; assigning to a key that is present
  replaces the value in place.
\<close>

fun dict_set :: "('k \<times> 'v) list \<Rightarrow> 'k \<Rightarrow> 'v \<Rightarrow> ('k \<times> 'v) list" where
  "dict_set [] k v = [(k, v)]"
| "dict_set ((k', v') # d) k v = (if k' = k then (k', v) # d else (k', v') # dict_set d k v)"

fun dict_of :: "('k \<times> 'v) list \<Rightarrow> ('k \<times> 'v) list \<Rightarrow> ('k \<times> 'v) list" where
  "dict_of d [] = d"
| "dict_of d ((k, v) # kvs) = dict_of (dict_set d k v) kvs"

section \<open>Table Extractor (vahan\_data\_extractor.py)\<close>

subsection \<open>\<open>_parse_complex_table_headers\<close> and \<open>_get_simple_headers\<close>\<close>

text \<open>
  A header cell is a \<open>th\<close> or \<open>td\<close> element with the text nodes below it.
  \<open>get_text(strip=True)\<close> strips every text node, drops the empty ones and joins the rest.
\<close>

datatype tag = Th | Td

datatype hcell = HCell tag "string list"

fun cell_tag :: "hcell \<Rightarrow> tag" where
  "cell_tag (HCell t ss) = t"

fun get_text_strip :: "hcell \<Rightarrow> string" where
  "get_text_strip (HCell t ss) = concat (filter (\<lambda>s. s \<noteq> []) (map strip ss))"

definition cell_text :: "hcell \<Rightarrow> string" where
  "cell_text c = collapse_ws (get_text_strip c)"

definition find_all_th :: "hcell list \<Rightarrow> hcell list" where
  "find_all_th row = filter (\<lambda>c. cell_tag c = Th) row"

definition category_codes :: "string list" where
  "category_codes = [''2WIC'', ''2WN'', ''2WT'', ''TOTAL'', ''3WN'', ''3WT'',
                     ''LMV'', ''MMV'', ''HMV'', ''LGV'', ''MGV'', ''HGV'']"

definition simple_codes :: "string list" where
  "simple_codes = [''2WIC'', ''2WN'', ''2WT'', ''TOTAL'', ''3WN'', ''3WT'', ''LMV'', ''MMV'', ''HMV'']"

text \<open>The loop over the first two cells of the first header row.\<close>

fun first_row_loop :: "string list \<Rightarrow> string list" where
  "first_row_loop [] = []"
| "first_row_loop (text # rest) =
     (if contains ''S No'' text then ''S No'' # first_row_loop rest
      else if contains ''Vehicle Class'' text then ''Vehicle Class'' # first_row_loop rest
      else first_row_loop rest)"

text \<open>The loop over the cells of the last header row.\<close>

fun category_loop :: "string list \<Rightarrow> string list" where
  "category_loop [] = []"
| "category_loop (text # rest) =
     (if text \<noteq> [] \<and> text \<notin> set [''S No'', ''Vehicle Class'', '''']
      then (if text \<in> set category_codes then strip text # category_loop rest
            else if contains ''TOTAL'' (upper text) then ''TOTAL'' # category_loop rest
            else if length text \<le> 10 then text # category_loop rest
            else category_loop rest)
      else category_loop rest)"

text \<open>The loop of the branch for fewer than three header rows.\<close>

fun last_row_loop :: "string list \<Rightarrow> string list" where
  "last_row_loop [] = []"
| "last_row_loop (text # rest) =
     (if text \<noteq> [] \<and> text \<notin> set ['''', '' '']
      then (if contains ''S No'' text then ''S No'' # last_row_loop rest
            else if contains ''Vehicle Class'' text then ''Vehicle Class'' # last_row_loop rest
            else if text \<in> set simple_codes then strip text # last_row_loop rest
            else text # last_row_loop rest)
      else last_row_loop rest)"

definition flatten_headers :: "hcell list list \<Rightarrow> string list" where
  "flatten_headers header_rows =
     (if 3 \<le> length header_rows
      then first_row_loop (map cell_text (take 2 (find_all_th (hd header_rows))))
           @ category_loop (map cell_text (find_all_th (last header_rows)))
      else if header_rows \<noteq> [] then last_row_loop (map cell_text (last header_rows))
      else [])"

text \<open>
  The label that a cell of the last header row is flattened to, and the cells that the
  loop keeps: a category code is a known token, a text with \<open>TOTAL\<close> in it, or a label of at
  most ten characters, other than the two spanning labels.
\<close>

definition canonical :: "string \<Rightarrow> string" where
  "canonical t = (if t \<in> set category_codes then t
                  else if contains ''TOTAL'' (upper t) then ''TOTAL'' else t)"

definition code_like :: "string \<Rightarrow> bool" where
  "code_like t = (t \<noteq> [] \<and> t \<noteq> ''S No'' \<and> t \<noteq> ''Vehicle Class''
      \<and> (t \<in> set category_codes \<or> contains ''TOTAL'' (upper t) \<or> length t \<le> 10))"






subsection \<open>\<open>fetch_data\<close>\<close>

text \<open>The result dictionary, with the keys that callers read.\<close>

record fetch_result =
  headers :: "string list"
  rows :: "string list list"
  status :: string






section \<open>Scrape Orchestrator: \<open>scrape_multiple_combinations\<close>\<close>

text \<open>
  A filter selection is a dictionary from dropdown labels to values. Each combination comes
  with what \<open>apply_filters\<close> did for it: it raised, or it returned a result dictionary.
  \<open>clock k\<close> is what the \<open>k\<close>-th call of \<open>datetime.now()\<close> printed; the function reads the
  clock once for every row it appends.
\<close>

type_synonym filters = "(string \<times> string) list"
type_synonym row_dict = "(string \<times> string) list"

fun filter_loop :: "row_dict \<Rightarrow> filters \<Rightarrow> row_dict" where
  "filter_loop row_dict [] = row_dict"
| "filter_loop row_dict ((filter_key, filter_value) # rest) =
     filter_loop (dict_set row_dict (''Filter_'' @ filter_key) filter_value) rest"

definition tag_row :: "string list \<Rightarrow> string list \<Rightarrow> filters \<Rightarrow> string \<Rightarrow> row_dict" where
  "tag_row hs row_data fs now =
     dict_set (filter_loop (dict_of [] (zip hs row_data)) fs) ''Scraped_Date'' now"

fun rows_loop :: "(nat \<Rightarrow> string) \<Rightarrow> string list \<Rightarrow> filters \<Rightarrow> string list list
                  \<Rightarrow> row_dict list \<Rightarrow> row_dict list" where
  "rows_loop clock hs fs [] all_data = all_data"
| "rows_loop clock hs fs (row_data # rest) all_data =
     rows_loop clock hs fs rest
       (if length hs \<le> length row_data
        then all_data @ [tag_row hs row_data fs (clock (length all_data))]
        else all_data)"

fun scrape_loop :: "(nat \<Rightarrow> string) \<Rightarrow> (filters \<times> (exn + fetch_result)) list
                    \<Rightarrow> row_dict list \<Rightarrow> row_dict list" where
  "scrape_loop clock [] all_data = all_data"
| "scrape_loop clock ((fs, Inl e) # rest) all_data = scrape_loop clock rest all_data"
| "scrape_loop clock ((fs, Inr result) # rest) all_data =
     scrape_loop clock rest
       (if status result = ''success'' \<and> rows result \<noteq> []
        then rows_loop clock (headers result) fs (rows result) all_data
        else all_data)"

text \<open>Both branches of the final test build a frame from \<open>all_data\<close>; the empty frame is \<open>[]\<close>.\<close>

definition scrape_multiple_combinations ::
  "(nat \<Rightarrow> string) \<Rightarrow> (filters \<times> (exn + fetch_result)) list \<Rightarrow> row_dict list" where
  "scrape_multiple_combinations clock combinations =
     (let all_data = scrape_loop clock combinations [] in if all_data \<noteq> [] then all_data else [])"

text \<open>A combination that is skipped: it raised, or its status is not \<open>success\<close>.\<close>

fun failed :: "exn + fetch_result \<Rightarrow> bool" where
  "failed (Inl e) = True"
| "failed (Inr result) = (status result \<noteq> ''success'')"


text \<open>A result with only the rows that are tagged, each cut to the number of headers.\<close>

definition keep_rows :: "fetch_result \<Rightarrow> fetch_result" where
  "keep_rows result =
     result\<lparr>rows := map (take (length (headers result)))
                        (filter (\<lambda>r. length (headers result) \<le> length r) (rows result))\<rparr>"

definition example_result :: fetch_result where
  "example_result = \<lparr>headers = [''S No'', ''TOTAL''],
                      rows = [[''1'', ''7'', ''x''], [''2''], [''3'', ''9'']],
                      status = ''success''\<rparr>"

definition example_clock :: "nat \<Rightarrow> string" where
  "example_clock k = ''2024-01-01 10:00:0'' @ [digit_char k]"

section \<open>Dropdown Enumerator: \<open>_fetch_one_menu_items\<close> and \<open>scrape_dropdowns\<close>\<close>

text \<open>
  What the browser does during one attempt, call by call: \<open>None\<close> when the call returns,
  \<open>Some e\<close> when it raises \<open>e\<close>.
\<close>

record attempt =
  presence :: "exn option"
  scroll :: "exn option"
  clickable :: "exn option"
  click :: "exn option"
  panel :: "exn option"
  li_texts :: "exn + string list"
  close_click :: "exn option"
  body_click :: "exn option"

datatype event = ClosePanels | LocateDropdown nat

datatype 'a step = Return 'a | Continue | Raise exn

text \<open>The inner \<open>try\<close>: a click that is intercepted leaves \<open>click_successful\<close> false.\<close>

definition click_dropdown :: "attempt \<Rightarrow> exn + bool" where
  "click_dropdown a =
     (case clickable a of
        Some (ElementClickInterceptedException m) \<Rightarrow> Inr False
      | Some e \<Rightarrow> Inl e
      | None \<Rightarrow>
          (case click a of
             Some (ElementClickInterceptedException m) \<Rightarrow> Inr False
           | Some e \<Rightarrow> Inl e
           | None \<Rightarrow> Inr True))"

fun items_loop :: "string list \<Rightarrow> string list \<Rightarrow> string list" where
  "items_loop [] items = items"
| "items_loop (li # rest) items =
     (let text = strip li
      in items_loop rest (if text \<noteq> [] \<and> text \<notin> set items then items @ [text] else items))"

definition close_dropdown :: "attempt \<Rightarrow> exn option" where
  "close_dropdown a = (case close_click a of None \<Rightarrow> None | Some e \<Rightarrow> body_click a)"

definition attempt_body :: "nat \<Rightarrow> nat \<Rightarrow> attempt \<Rightarrow> string list step" where
  "attempt_body max_retries attempt_no a =
     (case presence a of Some e \<Rightarrow> Raise e | None \<Rightarrow>
     (case scroll a of Some e \<Rightarrow> Raise e | None \<Rightarrow>
     (case click_dropdown a of Inl e \<Rightarrow> Raise e | Inr click_successful \<Rightarrow>
        if \<not> click_successful
        then (if attempt_no + 1 = max_retries
              then Raise (Exception (''Could not click dropdown after '' @ show_nat max_retries @ '' attempts''))
              else Continue)
        else
          (case panel a of Some e \<Rightarrow> Raise e | None \<Rightarrow>
          (case li_texts a of Inl e \<Rightarrow> Raise e | Inr li_elements \<Rightarrow>
          (case close_dropdown a of Some e \<Rightarrow> Raise e | None \<Rightarrow>
             Return (items_loop li_elements [])))))))"

definition timeout_message :: "string \<Rightarrow> string" where
  "timeout_message base_id = warning_sign @ '' Timeout: Panel not found for '' @ base_id"

definition error_message :: "nat \<Rightarrow> exn \<Rightarrow> string" where
  "error_message attempt_no e =
     warning_sign @ '' Error (attempt '' @ show_nat (attempt_no + 1) @ ''): '' @ take 100 (str_exn e) @ ''...''"

definition failed_message :: "nat \<Rightarrow> string" where
  "failed_message max_retries = warning_sign @ '' Failed after '' @ show_nat max_retries @ '' attempts''"

text \<open>
  The \<open>for attempt in range(max_retries)\<close> loop with its two handlers. The trace records
  every call of \<open>_close_all_open_panels\<close> and every search for the dropdown.
\<close>

fun fetch_loop :: "string \<Rightarrow> nat \<Rightarrow> (nat \<Rightarrow> attempt) \<Rightarrow> nat list \<Rightarrow> event list
                   \<Rightarrow> string list \<times> event list" where
  "fetch_loop base_id max_retries browser [] trace = ([failed_message max_retries], trace)"
| "fetch_loop base_id max_retries browser (attempt_no # later) trace =
     (let trace' = trace @ [ClosePanels, LocateDropdown attempt_no]
      in case attempt_body max_retries attempt_no (browser attempt_no) of
           Return items \<Rightarrow> (items, trace')
         | Continue \<Rightarrow> fetch_loop base_id max_retries browser later trace'
         | Raise (TimeoutException m) \<Rightarrow>
             if attempt_no + 1 = max_retries then ([timeout_message base_id], trace')
             else fetch_loop base_id max_retries browser later trace'
         | Raise e \<Rightarrow>
             if attempt_no + 1 = max_retries then ([error_message attempt_no e], trace')
             else fetch_loop base_id max_retries browser later trace')"

definition fetch_one_menu_items :: "string \<Rightarrow> nat \<Rightarrow> (nat \<Rightarrow> attempt) \<Rightarrow> string list \<times> event list" where
  "fetch_one_menu_items base_id max_retries browser =
     (let base = (if endswith base_id ''_input'' then take (length base_id - 6) base_id else base_id)
      in fetch_loop base max_retries browser [0..<max_retries] [])"

text \<open>
  \<open>scrape_dropdowns\<close>: one entry per label of the dropdown map; \<open>browser widget_id\<close> is
  what the browser does for that widget, attempt by attempt.
\<close>

definition menu_entry :: "string \<Rightarrow> string list \<Rightarrow> string list" where
  "menu_entry label fetched =
     (let items = (if fetched = [] then [warning_sign @ '' No items found for '' @ label] else fetched)
      in if items \<noteq> [] \<and> startswith (hd items) ''Select'' then tl items else items)"

fun scrape_dropdowns_loop :: "(string \<Rightarrow> nat \<Rightarrow> attempt) \<Rightarrow> (string \<times> string) list
                              \<Rightarrow> (string \<times> string list) list \<Rightarrow> (string \<times> string list) list" where
  "scrape_dropdowns_loop browser [] results = results"
| "scrape_dropdowns_loop browser ((label, widget_id) # rest) results =
     scrape_dropdowns_loop browser rest
       (dict_set results label (menu_entry label (fst (fetch_one_menu_items widget_id 3 (browser widget_id)))))"

definition scrape_dropdowns :: "(string \<Rightarrow> nat \<Rightarrow> attempt) \<Rightarrow> (string \<times> string) list
                                \<Rightarrow> (string \<times> string list) list" where
  "scrape_dropdowns browser dropdown_map = scrape_dropdowns_loop browser dropdown_map []"

text \<open>
  The panel never becomes visible during an attempt: the wait for it, when it is reached,
  ends in a \<open>TimeoutException\<close>. A sentinel is a one-element list whose text opens with the
  warning sign.
\<close>

definition panel_times_out :: "attempt \<Rightarrow> bool" where
  "panel_times_out a = (case panel a of Some (TimeoutException m) \<Rightarrow> True | _ \<Rightarrow> False)"

definition is_sentinel :: "string list \<Rightarrow> bool" where
  "is_sentinel items = (case items of [msg] \<Rightarrow> startswith msg warning_sign | _ \<Rightarrow> False)"

definition never_opens :: attempt where
  "never_opens = \<lparr>presence = None, scroll = None, clickable = None, click = None,
                   panel = Some (TimeoutException ''no such panel''), li_texts = Inr [],
                   close_click = None, body_click = None\<rparr>"

definition opens :: attempt where
  "opens = \<lparr>presence = None, scroll = None, clickable = None, click = None,
             panel = None, li_texts = Inr [''Select Year'', '' 2023 '', ''2024'', ''2023''],
             close_click = None, body_click = None\<rparr>"

definition example_browser :: "string \<Rightarrow> nat \<Rightarrow> attempt" where
  "example_browser widget_id k = (if widget_id = ''yaxisVar'' then never_opens else opens)"

section \<open>Growth Engine (data\_processor.py)\<close>

text \<open>
  Numbers are exact: a cell value and a sum are rationals, a \<open>float64\<close> that may also be an
  infinity or NaN is a value of \<open>'a fl\<close>, and a value that is a number or NaN is an option.
  Rounding errors of the binary format are not part of the model.
\<close>

datatype 'a fl = Fin 'a | PosInf | NegInf | NaN

text \<open>An operation that is increasing and unbounded (\<open>x - 1\<close>, \<open>x * 100\<close>, rounding) keeps
  the infinities and NaN.\<close>

fun fl_map :: "('a \<Rightarrow> 'a) \<Rightarrow> 'a fl \<Rightarrow> 'a fl" where
  "fl_map f (Fin x) = Fin (f x)"
| "fl_map f PosInf = PosInf"
| "fl_map f NegInf = NegInf"
| "fl_map f NaN = NaN"

text \<open>\<open>a - b\<close> and \<open>a / b\<close> on numpy scalars that are finite or NaN: a division by zero gives
  an infinity with the sign of the numerator, and NaN for \<open>0 / 0\<close>.\<close>

fun np_sub :: "'a::field \<Rightarrow> 'a option \<Rightarrow> 'a option" where
  "np_sub a None = None"
| "np_sub a (Some b) = Some (a - b)"

fun np_div :: "'a::linordered_field option \<Rightarrow> 'a option \<Rightarrow> 'a fl" where
  "np_div None b = NaN"
| "np_div (Some a) None = NaN"
| "np_div (Some a) (Some b) =
     (if b = 0 then (if 0 < a then PosInf else if a < 0 then NegInf else NaN) else Fin (a / b))"

text \<open>\<open>round(x, 2)\<close> and \<open>Series.round(2)\<close>: to two decimals, a tie to the even neighbour.\<close>

definition round_half_even :: "'a::floor_ceiling \<Rightarrow> int" where
  "round_half_even x =
     (let f = floor x; d = x - of_int f
      in if d < 1/2 then f else if 1/2 < d then f + 1 else if even f then f else f + 1)"

definition round2 :: "'a::floor_ceiling \<Rightarrow> 'a" where
  "round2 x = of_int (round_half_even (x * 100)) / 100"

text \<open>
  \<open>groupby(key)[column].sum().reset_index()\<close> followed by \<open>sort_values(key)\<close>: one row per
  key, in ascending order of the keys, with the sum of the column; rows whose key is NaN
  (\<open>None\<close>) are left out.
\<close>

fun add_to_group :: "'k::linorder \<Rightarrow> 'v::monoid_add \<Rightarrow> ('k \<times> 'v) list \<Rightarrow> ('k \<times> 'v) list" where
  "add_to_group y v [] = [(y, v)]"
| "add_to_group y v ((y', s) # gs) =
     (if y = y' then (y', s + v) # gs
      else if y < y' then (y, v) # (y', s) # gs
      else (y', s) # add_to_group y v gs)"

fun groupby_sum :: "('k::linorder option \<times> 'v::monoid_add) list \<Rightarrow> ('k \<times> 'v) list" where
  "groupby_sum [] = []"
| "groupby_sum ((None, v) # rest) = groupby_sum rest"
| "groupby_sum ((Some y, v) # rest) = add_to_group y v (groupby_sum rest)"

text \<open>\<open>Series.unique()\<close>: the values in order of first appearance.\<close>

definition unique :: "'a list \<Rightarrow> 'a list" where
  "unique xs = rev (remdups (rev xs))"

text \<open>
  A row of the cleaned frame, with the columns that the growth computations read. A missing
  \<open>Year\<close>, category, state or vehicle class is NaN (\<open>None\<close>); \<open>TOTAL\<close> is a number after
  cleaning.
\<close>

record cleaned_row =
  Year :: "int option"
  TOTAL :: rat
  Vehicle_Category :: "string option"
  State :: "string option"
  Vehicle_Class :: "string option"

definition yearly_totals :: "(cleaned_row \<Rightarrow> bool) \<Rightarrow> cleaned_row list \<Rightarrow> (int \<times> rat) list" where
  "yearly_totals sel data = groupby_sum (map (\<lambda>r. (Year r, TOTAL r)) (filter sel data))"

subsection \<open>\<open>_calculate_yoy_by_category\<close> and \<open>_calculate_yoy_by_state\<close>\<close>

text \<open>
  One record per adjacent pair of years. \<open>Category\<close> is the key of the group (the column
  \<open>Category\<close> or \<open>State\<close> of the frame that is returned) and \<open>Current_Year\<close> its column \<open>Year\<close>.
\<close>

record growth_record =
  Category :: string
  Current_Year :: int
  Current_Value :: rat
  Previous_Value :: rat
  YoY_Growth_Rate :: rat
  YoY_Growth_Absolute :: rat

definition growth_rate :: "rat \<Rightarrow> rat \<Rightarrow> rat" where
  "growth_rate current previous =
     (if previous > 0 then (current - previous) / previous * 100 else 0)"

fun pair_loop :: "string \<Rightarrow> (int \<times> rat) list \<Rightarrow> growth_record list" where
  "pair_loop key (previous_year # current_year # rest) =
     \<lparr>Category = key, Current_Year = fst current_year,
      Current_Value = snd current_year, Previous_Value = snd previous_year,
      YoY_Growth_Rate = round2 (growth_rate (snd current_year) (snd previous_year)),
      YoY_Growth_Absolute = snd current_year - snd previous_year\<rparr>
     # pair_loop key (current_year # rest)"
| "pair_loop key short = []"

fun groups_loop :: "(cleaned_row \<Rightarrow> string option) \<Rightarrow> cleaned_row list \<Rightarrow> string option list
                    \<Rightarrow> growth_record list" where
  "groups_loop col data [] = []"
| "groups_loop col data (None # rest) = groups_loop col data rest"
| "groups_loop col data (Some g # rest) =
     pair_loop g (yearly_totals (\<lambda>r. col r = Some g) data) @ groups_loop col data rest"


definition calculate_yoy_by_state :: "cleaned_row list \<Rightarrow> growth_record list" where
  "calculate_yoy_by_state data = groups_loop State data (unique (map State data))"

subsection \<open>\<open>_get_manufacturer_growth\<close>\<close>






subsection \<open>\<open>_calculate_yoy_growth\<close> (total)\<close>

text \<open>
  The yearly frame with its three added columns; \<open>shift(1)\<close> moves the column down by one
  row and leaves NaN in the first.
\<close>

record yearly_row =
  Total_Year :: int
  Total_Value :: rat
  Previous_Year_Value :: "rat option"
  Total_Growth_Rate :: "rat fl"
  Total_Growth_Absolute :: "rat option"

definition shift1 :: "'a list \<Rightarrow> 'a option list" where
  "shift1 xs = (if xs = [] then [] else None # map Some (butlast xs))"

definition calculate_yoy_growth :: "cleaned_row list \<Rightarrow> yearly_row list" where
  "calculate_yoy_growth data =
     (let yearly_data = groupby_sum (map (\<lambda>r. (Year r, TOTAL r)) data)
      in map (\<lambda>((year, v), previous).
                \<lparr>Total_Year = year, Total_Value = v, Previous_Year_Value = previous,
                 Total_Growth_Rate =
                   fl_map round2 (fl_map (\<lambda>x. x * 100) (np_div (np_sub v previous) previous)),
                 Total_Growth_Absolute = np_sub v previous\<rparr>)
             (zip yearly_data (shift1 (map snd yearly_data))))"

text \<open>The years that a selection of rows covers, and an example frame.\<close>

definition years_of :: "(cleaned_row \<Rightarrow> bool) \<Rightarrow> cleaned_row list \<Rightarrow> int set" where
  "years_of sel data = set (List.map_filter Year (filter sel data))"

definition reg :: "int \<Rightarrow> rat \<Rightarrow> string \<Rightarrow> string \<Rightarrow> cleaned_row" where
  "reg y v cls st = \<lparr>Year = Some y, TOTAL = v, Vehicle_Category = Some cls, State = Some st,
                     Vehicle_Class = Some cls\<rparr>"

definition example_data :: "cleaned_row list" where
  "example_data = [reg 2021 100 ''BUS'' ''Goa'', reg 2020 3 ''CAR'' ''Goa'', reg 2022 150 ''BUS'' ''Goa'',
                   reg 2021 4 ''CAR'' ''Goa'', reg 2020 0 ''BUS'' ''Goa'']"



section \<open>Growth analysis: \<open>calculate_compound_growth_rate\<close> (growth\_analyzer.py)\<close>



section \<open>Data Cleaner (data\_processor.py and processors/data\_cleaner.py)\<close>

subsection \<open>Library functions on text\<close>

text \<open>
  \<open>str.replace(old, new)\<close> for a pattern that is not empty: the occurrences of \<open>old\<close>, from
  the left and without overlap, become \<open>new\<close>.
\<close>

function replace :: "string \<Rightarrow> string \<Rightarrow> string \<Rightarrow> string" where
  "replace old new [] = []"
| "replace old new (c # cs) =
     (if old \<noteq> [] \<and> take (length old) (c # cs) = old
      then new @ replace old new (drop (length old) (c # cs))
      else c # replace old new cs)"
  by pat_completeness auto
termination
  by (relation "measure (\<lambda>(old, new, s). length s)") auto

text \<open>\<open>str.title()\<close>: a cased character after an uncased one is upper case, after a cased
  one lower case.\<close>

fun title_from :: "bool \<Rightarrow> string \<Rightarrow> string" where
  "title_from previous_is_cased [] = []"
| "title_from previous_is_cased (c # cs) =
     (if is_lower c then (if previous_is_cased then c else to_upper c) # title_from True cs
      else if is_upper c then (if previous_is_cased then to_lower c else c) # title_from True cs
      else c # title_from False cs)"

definition title :: "string \<Rightarrow> string" where
  "title s = title_from False s"

text \<open>\<open>str.replace(r'\([^)]*\)', '', regex=True)\<close>: every parenthesis that is closed later
  goes, with all text up to the first closing parenthesis.\<close>

function remove_parens :: "string \<Rightarrow> string" where
  "remove_parens [] = []"
| "remove_parens (c # cs) =
     (if c = CHR ''('' \<and> CHR '')'' \<in> set cs
      then remove_parens (tl (dropWhile (\<lambda>d. d \<noteq> CHR '')'') cs))
      else c # remove_parens cs)"
  by pat_completeness auto
termination
proof (relation "measure length")
  fix c :: char and cs :: string
  have "length (dropWhile (\<lambda>d. d \<noteq> CHR '')'') cs) \<le> length cs"
    by (rule length_dropWhile_le)
  then show "(tl (dropWhile (\<lambda>d. d \<noteq> CHR '')'') cs), c # cs) \<in> measure length"
    by simp
qed auto

definition is_digit :: "char \<Rightarrow> bool" where
  "is_digit c = (let n = (of_char c :: nat) in 48 \<le> n \<and> n \<le> 57)"

definition digit_val :: "char \<Rightarrow> nat" where
  "digit_val c = of_char c - 48"

fun digits_val :: "nat \<Rightarrow> string \<Rightarrow> nat" where
  "digits_val acc [] = acc"
| "digits_val acc (c # cs) = digits_val (acc * 10 + digit_val c) cs"

text \<open>\<open>str.extract(r'(\d{4})')\<close>: the first four digits in a row.\<close>

fun first_four_digits :: "string \<Rightarrow> string option" where
  "first_four_digits [] = None"
| "first_four_digits (c # cs) =
     (if list_all is_digit (take 4 (c # cs)) \<and> 4 \<le> length (c # cs) then Some (take 4 (c # cs))
      else first_four_digits cs)"

text \<open>
  \<open>pd.to_numeric(errors='coerce')\<close> on one text: blanks around it are skipped, then come an
  optional sign, digits with an optional fraction, and an optional exponent; \<open>None\<close> is NaN.
  The decimal numerals are the part of the library's parser that is modelled: the words
  for infinity, which it also reads, are not numbers of the data model.
\<close>

definition split_sign :: "string \<Rightarrow> bool \<times> string" where
  "split_sign s = (case s of
       c # cs \<Rightarrow> (if c = CHR ''-'' then (True, cs) else if c = CHR ''+'' then (False, cs) else (False, s))
     | [] \<Rightarrow> (False, s))"

definition pow10 :: "int \<Rightarrow> rat" where
  "pow10 e = (if 0 \<le> e then 10 ^ nat e else 1 / 10 ^ nat (- e))"

definition parse_exponent :: "string \<Rightarrow> int option" where
  "parse_exponent s =
     (case s of
        [] \<Rightarrow> Some 0
      | c # cs \<Rightarrow>
          (if c = CHR ''e'' \<or> c = CHR ''E''
           then (let (neg, ds) = split_sign cs
                 in if ds \<noteq> [] \<and> list_all is_digit ds
                    then Some (if neg then - int (digits_val 0 ds) else int (digits_val 0 ds))
                    else None)
           else None))"

definition parse_unsigned :: "string \<Rightarrow> rat option" where
  "parse_unsigned body =
     (let int_part = takeWhile is_digit body;
          rest = dropWhile is_digit body;
          frac_part = (case rest of c # cs \<Rightarrow> (if c = CHR ''.'' then takeWhile is_digit cs else []) | [] \<Rightarrow> []);
          rest' = (case rest of c # cs \<Rightarrow> (if c = CHR ''.'' then dropWhile is_digit cs else rest) | [] \<Rightarrow> [])
      in if int_part = [] \<and> frac_part = [] then None
         else (case parse_exponent rest' of
                 None \<Rightarrow> None
               | Some e \<Rightarrow>
                   Some ((of_nat (digits_val 0 int_part)
                          + of_nat (digits_val 0 frac_part) / 10 ^ length frac_part) * pow10 e)))"

definition to_numeric :: "string \<Rightarrow> rat option" where
  "to_numeric s =
     (let (neg, body) = split_sign (strip s)
      in case parse_unsigned body of
           None \<Rightarrow> None
         | Some magnitude \<Rightarrow> Some (if neg then - magnitude else magnitude))"

text \<open>
  The text of a number, as \<open>astype(str)\<close> prints it: the whole part in decimal and, when
  there is a fraction, a point and its digits (at most 17). The \<open>.0\<close> that a \<open>float64\<close>
  column appends to a whole number is left out, as for an \<open>int64\<close> column; both texts have
  the same digits and \<open>to_numeric\<close> reads both back as the same number.
\<close>

fun frac_digits :: "nat \<Rightarrow> rat \<Rightarrow> string" where
  "frac_digits 0 q = []"
| "frac_digits (Suc n) q =
     (if q = 0 then []
      else (let d = nat (floor (q * 10)) in digit_char d # frac_digits n (q * 10 - of_nat d)))"

definition str_of_num :: "rat \<Rightarrow> string" where
  "str_of_num r =
     (let a = abs r; whole = nat (floor a); part = a - of_nat whole
      in (if r < 0 then [CHR ''-''] else []) @ show_nat whole
         @ (if part = 0 then [] else CHR ''.'' # frac_digits 17 part))"

subsection \<open>Cleaning one cell of a numeric column\<close>


text \<open>
  \<open>DataCleaner.clean_numeric_columns\<close> on the text of one cell: commas go, a cell that is
  empty, \<open>nan\<close>, \<open>None\<close> or a lone dash becomes NaN, the text is read as a number, and NaN
  is filled with 0.
\<close>

definition cleaner_clean_cell :: "string \<Rightarrow> rat" where
  "cleaner_clean_cell s =
     (let s1 = replace '','' '''' s
      in if s1 \<in> set ['''', ''nan'', ''None'', ''-''] then 0
         else (case to_numeric s1 of None \<Rightarrow> 0 | Some v \<Rightarrow> v))"

subsection \<open>Frames\<close>

text \<open>
  A frame is the list of its columns in order; a column has a name, a dtype and its cells,
  and all columns have the same number of cells. A cell is a text, a number or missing
  (NaN or \<open>None\<close>).
\<close>

datatype cell = Txt string | Numb rat | NA

datatype dtype = Object | Float64

type_synonym column = "dtype \<times> cell list"
type_synonym frame = "(string \<times> column) list"

fun astype_str :: "cell \<Rightarrow> string" where
  "astype_str (Txt s) = s"
| "astype_str (Numb r) = str_of_num r"
| "astype_str NA = ''nan''"

definition n_rows :: "frame \<Rightarrow> nat" where
  "n_rows f = (case f of [] \<Rightarrow> 0 | (name, (dt, cells)) # cols \<Rightarrow> length cells)"

definition is_empty :: "frame \<Rightarrow> bool" where
  "is_empty f = (f = [] \<or> n_rows f = 0)"

definition row_at :: "frame \<Rightarrow> nat \<Rightarrow> cell list" where
  "row_at f i = map (\<lambda>(name, (dt, cells)). cells ! i) f"

definition keep_where :: "bool list \<Rightarrow> 'a list \<Rightarrow> 'a list" where
  "keep_where keep xs = map fst (filter snd (zip xs keep))"

definition select_rows :: "bool list \<Rightarrow> frame \<Rightarrow> frame" where
  "select_rows keep f = map (\<lambda>(name, (dt, cells)). (name, (dt, keep_where keep cells))) f"

text \<open>\<open>dropna(how='all')\<close>: the rows with a cell that is not missing.\<close>

definition dropna_all :: "frame \<Rightarrow> frame" where
  "dropna_all f = select_rows (map (\<lambda>i. list_ex (\<lambda>c. c \<noteq> NA) (row_at f i)) [0..<n_rows f]) f"

text \<open>\<open>duplicated(keep='first')\<close>, negated: the rows that are not equal to an earlier one.\<close>

definition first_occurrence :: "'a list \<Rightarrow> bool list" where
  "first_occurrence keys = map (\<lambda>i. keys ! i \<notin> set (take i keys)) [0..<length keys]"

subsection \<open>The steps of \<open>DataCleaner\<close>\<close>

text \<open>
  The loop over the known numeric columns, which both cleaners have: a column of the list
  that the frame has becomes a numeric column of the cleaned cells.
\<close>

fun numeric_loop :: "(string \<Rightarrow> rat) \<Rightarrow> string list \<Rightarrow> frame \<Rightarrow> frame" where
  "numeric_loop clean [] data = data"
| "numeric_loop clean (col # cols) data =
     numeric_loop clean cols
       (case map_of data col of
          None \<Rightarrow> data
        | Some (dt, cells) \<Rightarrow>
            dict_set data col (Float64, map (\<lambda>c. Numb (clean (astype_str c))) cells))"

definition NUMERIC_COLUMNS :: "string list" where
  "NUMERIC_COLUMNS = [''2WIC'', ''2WN'', ''2WT'', ''3WN'', ''3WT'', ''LMV'', ''MMV'', ''HMV'', ''TOTAL'']"

definition VEHICLE_CATEGORIES :: "(string \<times> string list) list" where
  "VEHICLE_CATEGORIES = [(''2W'', [''MOTOR CYCLE'', ''SCOOTER'', ''M-CYCLE'', ''MOPED'']),
                         (''3W'', [''AUTO RICKSHAW'', ''3W'', ''THREE WHEELER'']),
                         (''4W+'', [''CAR'', ''TRUCK'', ''BUS'', ''LMV'', ''MMV'', ''HMV''])]"


text \<open>
  The module \<open>core/config.py\<close> is not among the sources: \<open>Config.NUMERIC_COLUMNS\<close> and
  \<open>Config.VEHICLE_CATEGORIES\<close> are parameters of the functions of \<open>DataCleaner\<close>.
\<close>

definition clean_numeric_columns :: "string list \<Rightarrow> frame \<Rightarrow> frame" where
  "clean_numeric_columns numeric_columns data = numeric_loop cleaner_clean_cell numeric_columns data"

definition clean_text_cell :: "string \<Rightarrow> cell \<Rightarrow> cell" where
  "clean_text_cell col c =
     (let s = strip (astype_str c)
      in if s \<in> set [''nan'', ''None'', ''''] then NA
         else if contains ''state'' (lower col) \<or> contains ''vehicle'' (lower col) then Txt (title s)
         else Txt s)"

definition clean_text_columns :: "string list \<Rightarrow> frame \<Rightarrow> frame" where
  "clean_text_columns numeric_columns data =
     map (\<lambda>(col, (dt, cells)).
            if dt = Object \<and> col \<notin> set numeric_columns
            then (col, (Object, map (clean_text_cell col) cells))
            else (col, (dt, cells))) data"

definition extract_year :: "string \<Rightarrow> cell" where
  "extract_year s =
     (case first_four_digits s of
        None \<Rightarrow> NA
      | Some d \<Rightarrow> (case to_numeric d of None \<Rightarrow> NA | Some v \<Rightarrow> Numb v))"

text \<open>
  Each of the two loops of \<open>extract_temporal_data\<close> leaves at the first column that it
  handles without an exception, which is the first one: the calls in its body do not raise
  on a column of this model.
\<close>

definition extract_temporal_data :: "frame \<Rightarrow> frame" where
  "extract_temporal_data data =
     (let with_year =
            (case filter (\<lambda>col. contains ''year'' (lower col)) (map fst data) of
               [] \<Rightarrow> data
             | col # later \<Rightarrow>
                 (case map_of data col of
                    None \<Rightarrow> data
                  | Some (dt, cells) \<Rightarrow>
                      (let texts = map astype_str cells;
                           data1 = dict_set data col (Object, map Txt texts)
                       in dict_set data1 ''Year'' (Float64, map extract_year texts))))
      in case filter (\<lambda>col. contains ''state'' (lower col)) (map fst with_year) of
           [] \<Rightarrow> with_year
         | col # later \<Rightarrow>
             (case map_of with_year col of
                None \<Rightarrow> with_year
              | Some (dt, cells) \<Rightarrow>
                  dict_set with_year ''State''
                    (Object, map (\<lambda>c. Txt (strip (remove_parens (astype_str c)))) cells)))"

text \<open>\<open>float(row[col]) if pd.notna(row[col]) else 0\<close>, with 0 for a text that is no number.\<close>

definition cell_value :: "cell \<Rightarrow> rat" where
  "cell_value c = (case c of Numb v \<Rightarrow> v | NA \<Rightarrow> 0
                   | Txt s \<Rightarrow> (case to_numeric s of None \<Rightarrow> 0 | Some v \<Rightarrow> v))"

definition categorize_vehicle ::
  "string list \<Rightarrow> (string \<times> string list) list \<Rightarrow> (string \<times> cell) list \<Rightarrow> string" where
  "categorize_vehicle numeric_columns vehicle_categories row =
     (let vehicle_class_cols =
            filter (\<lambda>(col, c). contains ''vehicle'' (lower col) \<and> contains ''class'' (lower col)) row;
          by_class =
            (case vehicle_class_cols of
               [] \<Rightarrow> []
             | (col, c) # later \<Rightarrow>
                 filter (\<lambda>(category, keywords).
                           list_ex (\<lambda>keyword. contains (upper keyword) (upper (astype_str c))) keywords)
                        vehicle_categories)
      in case by_class of
           (category, keywords) # later \<Rightarrow> category
         | [] \<Rightarrow>
             (let numeric_values = filter (\<lambda>(col, c). col \<in> set numeric_columns) row;
                  total = (\<lambda>cols. sum_list (map (\<lambda>(col, c). cell_value c)
                                              (filter (\<lambda>(col, c). col \<in> set cols) numeric_values)));
                  two_w_total = total [''2WIC'', ''2WN'', ''2WT''];
                  three_w_total = total [''3WN'', ''3WT''];
                  four_w_total = total [''LMV'', ''MMV'', ''HMV''];
                  max_category =
                    (if three_w_total \<le> two_w_total \<and> four_w_total \<le> two_w_total then (two_w_total, ''2W'')
                     else if four_w_total \<le> three_w_total then (three_w_total, ''3W'')
                     else (four_w_total, ''4W+''))
              in if numeric_values \<noteq> [] \<and> 0 < fst max_category then snd max_category
                 else ''Unknown''))"

text \<open>The step of \<open>clean_all\<close> that sets the column \<open>Vehicle_Category\<close>.\<close>

definition vehicle_category :: "string list \<Rightarrow> (string \<times> string list) list \<Rightarrow> frame \<Rightarrow> frame" where
  "vehicle_category numeric_columns vehicle_categories cleaned_data =
     (case map_of cleaned_data ''Vehicle Class'' of
        Some column \<Rightarrow> dict_set cleaned_data ''Vehicle_Category'' column
      | None \<Rightarrow>
          dict_set cleaned_data ''Vehicle_Category''
            (Object, map (\<lambda>i. Txt (categorize_vehicle numeric_columns vehicle_categories
                                      (zip (map fst cleaned_data) (row_at cleaned_data i))))
                         [0..<n_rows cleaned_data]))"

definition remove_duplicates :: "frame \<Rightarrow> frame" where
  "remove_duplicates data =
     (let data_clean = select_rows (first_occurrence (map (row_at data) [0..<n_rows data])) data;
          key_columns = filter (\<lambda>col. map_of data_clean col \<noteq> None) [''State'', ''Year'', ''Vehicle Class''];
          keyed = filter (\<lambda>(col, column). col \<in> set key_columns) data_clean
      in if key_columns \<noteq> []
         then select_rows (first_occurrence (map (row_at keyed) [0..<n_rows data_clean])) data_clean
         else data_clean)"

definition fill_text :: "string \<Rightarrow> string" where
  "fill_text col =
     (if contains ''state'' (lower col) then ''Unknown State''
      else if contains ''vehicle'' (lower col) then ''Unknown Vehicle''
      else ''Unknown'')"

definition handle_missing_values :: "frame \<Rightarrow> frame" where
  "handle_missing_values data =
     map (\<lambda>(col, (dt, cells)).
            if dt = Float64 then (col, (dt, map (\<lambda>c. if c = NA then Numb 0 else c) cells))
            else (col, (dt, map (\<lambda>c. if c = NA then Txt (fill_text col) else c) cells))) data"

subsection \<open>\<open>DataCleaner.clean_all\<close>\<close>

datatype cleaning_error = DataProcessingError string

definition clean_all ::
  "string list \<Rightarrow> (string \<times> string list) list \<Rightarrow> frame \<Rightarrow> cleaning_error + frame" where
  "clean_all numeric_columns vehicle_categories data =
     (if is_empty data then Inl (DataProcessingError ''Data cleaning failed: Data is None or empty'')
      else Inr (handle_missing_values (remove_duplicates
                 (vehicle_category numeric_columns vehicle_categories
                   (extract_temporal_data (clean_text_columns numeric_columns
                     (clean_numeric_columns numeric_columns (dropna_all data))))))))"

text \<open>
  A raw frame with a state missing in its second row, what cleaning returns for it, and
  what cleaning returns for that.
\<close>

definition raw_frame :: frame where
  "raw_frame = [(''Filter_State'', (Object, [Txt ''Karnataka(53)'', NA])),
                (''Vehicle Class'', (Object, [Txt ''BUS'', Txt ''CAR''])),
                (''TOTAL'', (Object, [Txt ''1,234'', Txt ''5'']))]"

definition cleaned_once :: frame where
  "cleaned_once = [(''Filter_State'', (Object, [Txt ''Karnataka(53)'', Txt ''Unknown State''])),
                   (''Vehicle Class'', (Object, [Txt ''Bus'', Txt ''Car''])),
                   (''TOTAL'', (Float64, [Numb 1234, Numb 5])),
                   (''State'', (Object, [Txt ''Karnataka'', Txt ''nan''])),
                   (''Vehicle_Category'', (Object, [Txt ''Bus'', Txt ''Car'']))]"

definition cleaned_twice :: frame where
  "cleaned_twice = [(''Filter_State'', (Object, [Txt ''Karnataka(53)'', Txt ''Unknown State''])),
                    (''Vehicle Class'', (Object, [Txt ''Bus'', Txt ''Car''])),
                    (''TOTAL'', (Float64, [Numb 1234, Numb 5])),
                    (''State'', (Object, [Txt ''Karnataka'', Txt ''Unknown State''])),
                    (''Vehicle_Category'', (Object, [Txt ''Bus'', Txt ''Car'']))]"


chapter \<open>Theorems\<close>

section \<open>Dictionaries\<close>

lemma map_of_dict_set: "map_of (dict_set d k v) = (map_of d)(k \<mapsto> v)"
  by (induction d) auto

lemma dict_of_other: "k \<notin> fst ` set kvs \<Longrightarrow> map_of (dict_of d kvs) k = map_of d k"
proof (induction kvs arbitrary: d)
  case Nil
  then show ?case by simp
next
  case (Cons kv kvs)
  obtain a b where kv: "kv = (a, b)" by (cases kv)
  show ?case using Cons by (auto simp: kv map_of_dict_set)
qed

lemma dict_of_zip_nth:
  "distinct hs \<Longrightarrow> length hs \<le> length r \<Longrightarrow> i < length hs \<Longrightarrow>
   map_of (dict_of d (zip hs r)) (hs ! i) = Some (r ! i)"
proof (induction hs arbitrary: r i d)
  case Nil
  then show ?case by simp
next
  case (Cons h hs)
  then obtain x xs where r: "r = x # xs" by (cases r) auto
  show ?case
  proof (cases i)
    case 0
    have "h \<notin> fst ` set (zip hs xs)" using Cons.prems(1) by (auto dest: set_zip_leftD)
    then show ?thesis using 0 by (simp add: r dict_of_other map_of_dict_set)
  next
    case (Suc j)
    then show ?thesis using Cons by (simp add: r)
  qed
qed

section \<open>Header flattening\<close>

lemma strip_codes: "t \<in> set category_codes \<Longrightarrow> strip t = t"
  by (auto simp: category_codes_def strip_def is_space_def)

lemma contains_map: "contains s t \<Longrightarrow> contains (map f s) (map f t)"
proof (induction t)
  case Nil
  then show ?case by simp
next
  case (Cons a t)
  then show ?case by (metis contains.simps(2) length_map list.simps(9) take_map)
qed

lemma upper_TOTAL: "upper ''TOTAL'' = ''TOTAL''"
  by (simp add: upper_def is_lower_def)

lemma contains_upper_TOTAL: "contains ''TOTAL'' t \<Longrightarrow> contains ''TOTAL'' (upper t)"
  using contains_map [of "''TOTAL''" t to_upper] upper_TOTAL by (simp add: upper_def)

lemma codes_TOTAL: "t \<in> set category_codes \<Longrightarrow> contains ''TOTAL'' t \<Longrightarrow> t = ''TOTAL''"
  by (auto simp: category_codes_def)

lemma category_loop_codes: "list_all code_like ts \<Longrightarrow> category_loop ts = map canonical ts"
  by (induction ts) (auto simp: code_like_def canonical_def strip_codes)

lemma canonical_TOTAL: "contains ''TOTAL'' t \<Longrightarrow> canonical t = ''TOTAL''"
  using codes_TOTAL contains_upper_TOTAL by (auto simp: canonical_def)

text \<open>
  Claim C7. A header block of three or more rows, whose first two leaf cells of the first row
  carry \<open>S No\<close> and \<open>Vehicle Class\<close> and whose last row carries category codes, flattens to
  those two labels followed by the labels of all leaf cells of the last row, in order; a
  cell whose text contains \<open>TOTAL\<close> becomes \<open>TOTAL\<close>.
\<close>

theorem header_flattening:
  assumes "3 \<le> length header_rows"
    and "map cell_text (take 2 (find_all_th (hd header_rows))) = [a, b]"
    and "contains ''S No'' a" and "\<not> contains ''S No'' b" and "contains ''Vehicle Class'' b"
    and "list_all code_like (map cell_text (find_all_th (last header_rows)))"
  shows "flatten_headers header_rows
           = [''S No'', ''Vehicle Class''] @ map canonical (map cell_text (find_all_th (last header_rows)))
         \<and> list_all (\<lambda>t. contains ''TOTAL'' t \<longrightarrow> canonical t = ''TOTAL'')
             (map cell_text (find_all_th (last header_rows)))"
  using assms by (simp add: flatten_headers_def category_loop_codes canonical_TOTAL list_all_iff)

theorem header_flattening_witness:
  "flatten_headers [[HCell Th [''S No''], HCell Th [''Vehicle Class'']],
                    [HCell Th [''Two Wheeler'']],
                    [HCell Th [''2WIC''], HCell Th [''2WN''], HCell Th [''TOTAL'']]]
   = [''S No'', ''Vehicle Class'', ''2WIC'', ''2WN'', ''TOTAL'']"
  using header_flattening [of "[[HCell Th [''S No''], HCell Th [''Vehicle Class'']],
                                [HCell Th [''Two Wheeler'']],
                                [HCell Th [''2WIC''], HCell Th [''2WN''], HCell Th [''TOTAL'']]]"
                              "''S No''" "''Vehicle Class''"]
  by (simp add: find_all_th_def cell_text_def strip_def is_space_def code_like_def canonical_def
                category_codes_def upper_def is_lower_def)

section \<open>Table extraction\<close>







section \<open>The sweep over filter combinations\<close>

lemma scrape_loop_append:
  "scrape_loop clock (xs @ ys) acc = scrape_loop clock ys (scrape_loop clock xs acc)"
proof (induction xs arbitrary: acc)
  case Nil
  then show ?case by simp
next
  case (Cons x xs)
  obtain fs outcome where x: "x = (fs, outcome)" by (cases x)
  show ?case using Cons by (cases outcome) (simp_all add: x)
qed

lemma scrape_eq: "scrape_multiple_combinations clock cs = scrape_loop clock cs []"
  by (simp add: scrape_multiple_combinations_def Let_def)





lemma example_sweep:
  "scrape_multiple_combinations example_clock
     [([(''State'', ''Goa'')], Inr example_result), ([(''State'', ''Kerala'')], Inl (Exception ''stale element'')),
      ([(''State'', ''Delhi'')], Inr example_result)]
   = [[(''S No'', ''1''), (''TOTAL'', ''7''), (''Filter_State'', ''Goa''), (''Scraped_Date'', ''2024-01-01 10:00:00'')],
      [(''S No'', ''3''), (''TOTAL'', ''9''), (''Filter_State'', ''Goa''), (''Scraped_Date'', ''2024-01-01 10:00:01'')],
      [(''S No'', ''1''), (''TOTAL'', ''7''), (''Filter_State'', ''Delhi''), (''Scraped_Date'', ''2024-01-01 10:00:02'')],
      [(''S No'', ''3''), (''TOTAL'', ''9''), (''Filter_State'', ''Delhi''), (''Scraped_Date'', ''2024-01-01 10:00:03'')]]"
  by code_simp



section \<open>Tagging of rows\<close>

lemma map_of_filter_loop:
  "k \<notin> (\<lambda>kv. ''Filter_'' @ fst kv) ` set fs \<Longrightarrow> map_of (filter_loop d fs) k = map_of d k"
proof (induction fs arbitrary: d)
  case Nil
  then show ?case by simp
next
  case (Cons kv fs)
  obtain a b where kv: "kv = (a, b)" by (cases kv)
  show ?case using Cons by (auto simp: kv map_of_dict_set)
qed

lemma tag_row_lookup:
  assumes "distinct hs" "length hs \<le> length r" "i < length hs"
    and "hs ! i \<noteq> ''Scraped_Date''" and "\<not> startswith (hs ! i) ''Filter_''"
  shows "map_of (tag_row hs r fs now) (hs ! i) = Some (r ! i)"
proof -
  have a: "hs ! i \<notin> (\<lambda>kv. ''Filter_'' @ fst kv) ` set fs"
    using assms(5) by (auto simp: startswith_def)
  show ?thesis
    using a assms(4) dict_of_zip_nth [OF assms(1,2,3)]
    by (simp add: tag_row_def map_of_dict_set map_of_filter_loop)
qed

lemma zip_take_length: "zip xs (take (length xs) ys) = zip xs ys"
proof (induction xs arbitrary: ys)
  case Nil
  then show ?case by simp
next
  case (Cons x xs)
  then show ?case by (cases ys) simp_all
qed

lemma tag_row_take: "tag_row hs (take (length hs) r) fs now = tag_row hs r fs now"
  by (simp add: tag_row_def zip_take_length)

lemma rows_loop_take:
  "rows_loop clock hs fs (map (take (length hs)) (filter (\<lambda>r. length hs \<le> length r) rs)) acc
     = rows_loop clock hs fs rs acc"
  by (induction rs arbitrary: acc) (simp_all add: tag_row_take)

lemma rows_loop_length:
  "length (rows_loop clock hs fs rs acc)
     = length acc + length (filter (\<lambda>r. length hs \<le> length r) rs)"
  by (induction rs arbitrary: acc) simp_all

lemma scrape_step_keep:
  "status result = ''success'' \<Longrightarrow>
   scrape_loop clock ((fs, Inr (keep_rows result)) # rest) acc
     = scrape_loop clock ((fs, Inr result) # rest) acc"
  using rows_loop_take [of clock "headers result" fs "rows result" acc]
  by (auto simp: keep_rows_def)

text \<open>
  Claim C10. For a combination with status \<open>success\<close>, the sweep returns the same frame as
  for the result whose rows are only those with at least as many cells as headers, each cut
  to the number of headers: shorter rows are dropped and cells beyond the headers are
  discarded. One combination contributes one tagged row per kept row, and a tagged row maps
  each header to the cell at its position (for distinct headers that are not overwritten
  by a \<open>Filter_\<close> key or \<open>Scraped_Date\<close>).
\<close>

theorem orchestrator_keeps_full_rows:
  assumes "status result = ''success''"
  shows "scrape_multiple_combinations clock (before @ (fs, Inr result) # after)
           = scrape_multiple_combinations clock (before @ (fs, Inr (keep_rows result)) # after)
       \<and> length (scrape_multiple_combinations clock [(fs, Inr result)])
           = length (filter (\<lambda>r. length (headers result) \<le> length r) (rows result))
       \<and> (distinct (headers result) \<and> length (headers result) \<le> length r \<and> i < length (headers result)
            \<and> headers result ! i \<noteq> ''Scraped_Date'' \<and> \<not> startswith (headers result ! i) ''Filter_''
          \<longrightarrow> map_of (tag_row (headers result) r fs now) (headers result ! i) = Some (r ! i))"
proof -
  have 1: "scrape_multiple_combinations clock (before @ (fs, Inr result) # after)
           = scrape_multiple_combinations clock (before @ (fs, Inr (keep_rows result)) # after)"
    by (simp only: scrape_eq scrape_loop_append scrape_step_keep [OF assms])
  have 2: "length (scrape_multiple_combinations clock [(fs, Inr result)])
           = length (filter (\<lambda>r. length (headers result) \<le> length r) (rows result))"
    using assms rows_loop_length [of clock "headers result" fs "rows result" "[]"]
    by (auto simp: scrape_eq)
  show ?thesis using 1 2 tag_row_lookup by blast
qed

theorem orchestrator_keeps_full_rows_witness:
  "status example_result = ''success''
   \<and> rows (keep_rows example_result) = [[''1'', ''7''], [''3'', ''9'']]
   \<and> scrape_multiple_combinations example_clock ([] @ ([(''State'', ''Goa'')], Inr example_result) # [])
       = scrape_multiple_combinations example_clock
           ([] @ ([(''State'', ''Goa'')], Inr (keep_rows example_result)) # [])
   \<and> length (scrape_multiple_combinations example_clock [([(''State'', ''Goa'')], Inr example_result)]) = 2
   \<and> map_of (tag_row (headers example_result) [''1'', ''7'', ''x''] [(''State'', ''Goa'')] ''now'')
        (headers example_result ! 1) = Some ([''1'', ''7'', ''x''] ! 1)"
  using orchestrator_keeps_full_rows [of example_result example_clock "[]" "[(''State'', ''Goa'')]" "[]"
          "[''1'', ''7'', ''x'']" 1 "''now''"]
  by (simp add: example_result_def keep_rows_def startswith_def scrape_multiple_combinations_def
                tag_row_def)

section \<open>Dropdown enumeration\<close>

lemma attempt_no_return: "panel_times_out a \<Longrightarrow> attempt_body m k a \<noteq> Return items"
  by (auto simp: attempt_body_def panel_times_out_def split: option.splits sum.splits exn.splits)

lemma attempt_last_no_continue: "k + 1 = m \<Longrightarrow> attempt_body m k a \<noteq> Continue"
  by (auto simp: attempt_body_def split: option.splits sum.splits)

lemma sentinel_timeout: "is_sentinel [timeout_message b]"
  by (simp add: is_sentinel_def timeout_message_def startswith_def)

lemma sentinel_error: "is_sentinel [error_message k e]"
  by (simp add: is_sentinel_def error_message_def startswith_def)

lemma loop_step:
  assumes "panel_times_out (browser k)" "k + 1 \<noteq> m"
  shows "fetch_loop b m browser (k # later) tr
           = fetch_loop b m browser later (tr @ [ClosePanels, LocateDropdown k])"
proof (cases "attempt_body m k (browser k)")
  case (Return items)
  then show ?thesis using attempt_no_return [OF assms(1)] by simp
next
  case Continue
  then show ?thesis by simp
next
  case (Raise e)
  then show ?thesis using assms(2) by (cases e) simp_all
qed

lemma loop_last:
  assumes "panel_times_out (browser k)" "k + 1 = m"
  shows "is_sentinel (fst (fetch_loop b m browser (k # later) tr))
       \<and> snd (fetch_loop b m browser (k # later) tr) = tr @ [ClosePanels, LocateDropdown k]"
proof (cases "attempt_body m k (browser k)")
  case (Return items)
  then show ?thesis using attempt_no_return [OF assms(1)] by simp
next
  case Continue
  then show ?thesis using attempt_last_no_continue [OF assms(2)] by simp
next
  case (Raise e)
  then show ?thesis using assms(2) by (cases e) (simp_all add: sentinel_timeout sentinel_error)
qed

lemma upt3: "[0..<3] = [0, 1, 2]"
  by (simp add: upt_rec)

lemma fetch_never_visible:
  assumes "list_all (\<lambda>k. panel_times_out (browser k)) [0, 1, 2]"
  shows "is_sentinel (fst (fetch_one_menu_items base_id 3 browser))
       \<and> snd (fetch_one_menu_items base_id 3 browser)
           = [ClosePanels, LocateDropdown 0, ClosePanels, LocateDropdown 1, ClosePanels, LocateDropdown 2]"
proof -
  from assms have p0: "panel_times_out (browser 0)" and p1: "panel_times_out (browser 1)"
    and p2: "panel_times_out (browser 2)" by simp_all
  have s0: "fetch_loop b 3 browser [0, 1, 2] []
              = fetch_loop b 3 browser [1, 2] [ClosePanels, LocateDropdown 0]" for b
    using loop_step [of browser 0 3 b "[1, 2]" "[]", OF p0] by (simp del: fetch_loop.simps)
  have s1: "fetch_loop b 3 browser [1, 2] tr
              = fetch_loop b 3 browser [2] (tr @ [ClosePanels, LocateDropdown 1])" for b tr
    using loop_step [of browser 1 3 b "[2]" tr, OF p1] by (simp del: fetch_loop.simps)
  have s2: "is_sentinel (fst (fetch_loop b 3 browser [2] tr))
       \<and> snd (fetch_loop b 3 browser [2] tr) = tr @ [ClosePanels, LocateDropdown 2]" for b tr
    using loop_last [of browser 2 3 b "[]" tr, OF p2] by (simp del: fetch_loop.simps)
  have all: "is_sentinel (fst (fetch_loop b 3 browser [0, 1, 2] []))
       \<and> snd (fetch_loop b 3 browser [0, 1, 2] [])
           = [ClosePanels, LocateDropdown 0, ClosePanels, LocateDropdown 1, ClosePanels, LocateDropdown 2]" for b
    unfolding s0 s1 using s2 [of b "[ClosePanels, LocateDropdown 0] @ [ClosePanels, LocateDropdown 1]"]
    by (simp del: fetch_loop.simps)
  show ?thesis
    unfolding fetch_one_menu_items_def Let_def upt3 by (rule all)
qed

lemma menu_entry_sentinel: "is_sentinel items \<Longrightarrow> menu_entry label items = items"
  by (auto simp: is_sentinel_def menu_entry_def startswith_def warning_sign_def split: list.splits)

lemma sdl_keys:
  "dom (map_of (scrape_dropdowns_loop browser dm res)) = dom (map_of res) \<union> fst ` set dm"
proof (induction dm arbitrary: res)
  case Nil
  then show ?case by simp
next
  case (Cons x dm)
  obtain label wid where x: "x = (label, wid)" by (cases x)
  show ?case using Cons by (auto simp: x map_of_dict_set split: if_splits)
qed

lemma sdl_keep:
  "l \<notin> fst ` set dm \<Longrightarrow> map_of (scrape_dropdowns_loop browser dm r) l = map_of r l"
proof (induction dm arbitrary: r)
  case Nil
  then show ?case by simp
next
  case (Cons y dm)
  obtain l' w' where y: "y = (l', w')" by (cases y)
  show ?case using Cons by (auto simp: y map_of_dict_set)
qed

lemma sdl_map_of:
  "distinct (map fst dm) \<Longrightarrow> (label, wid) \<in> set dm \<Longrightarrow>
   map_of (scrape_dropdowns_loop browser dm res) label
     = Some (menu_entry label (fst (fetch_one_menu_items wid 3 (browser wid))))"
proof (induction dm arbitrary: res)
  case Nil
  then show ?case by simp
next
  case (Cons x dm)
  obtain l w where x: "x = (l, w)" by (cases x)
  show ?case
  proof (cases "label = l")
    case True
    then have "l \<notin> fst ` set dm" and "wid = w" using Cons.prems x by force+
    then show ?thesis using True sdl_keep by (simp add: x map_of_dict_set)
  next
    case False
    then have "(label, wid) \<in> set dm" using Cons.prems x by simp
    then show ?thesis using Cons by (simp add: x)
  qed
qed

text \<open>
  Claim C8. When the panel of a dropdown never becomes visible, \<open>_fetch_one_menu_items\<close>
  with its three retries makes exactly three attempts, each opened by closing the other
  panels, and returns a one-element list whose text opens with the warning sign; it does
  not raise. \<open>scrape_dropdowns\<close> then has an entry for every label of the dropdown map, and
  the entry of the failing dropdown is that sentinel.
\<close>

theorem dropdown_never_visible:
  assumes "list_all (\<lambda>k. panel_times_out (browser widget_id k)) [0, 1, 2]"
    and "distinct (map fst dropdown_map)" and "(label, widget_id) \<in> set dropdown_map"
  shows "is_sentinel (fst (fetch_one_menu_items widget_id 3 (browser widget_id)))
       \<and> snd (fetch_one_menu_items widget_id 3 (browser widget_id))
           = [ClosePanels, LocateDropdown 0, ClosePanels, LocateDropdown 1, ClosePanels, LocateDropdown 2]
       \<and> dom (map_of (scrape_dropdowns browser dropdown_map)) = fst ` set dropdown_map
       \<and> map_of (scrape_dropdowns browser dropdown_map) label
           = Some (fst (fetch_one_menu_items widget_id 3 (browser widget_id)))"
  using fetch_never_visible [OF assms(1)] sdl_map_of [OF assms(2,3)]
  by (simp add: scrape_dropdowns_def sdl_keys menu_entry_sentinel)

lemma example_dropdowns:
  "scrape_dropdowns example_browser [(''Y-Axis'', ''yaxisVar''), (''Year'', ''selectedYear'')]
     = [(''Y-Axis'', [timeout_message ''yaxisVar'']), (''Year'', [''2023'', ''2024''])]"
  by (simp add: scrape_dropdowns_def example_browser_def never_opens_def opens_def
        fetch_one_menu_items_def upt3 attempt_body_def click_dropdown_def close_dropdown_def
        endswith_def menu_entry_def startswith_def strip_def is_space_def timeout_message_def
        warning_sign_def)

theorem dropdown_never_visible_witness:
  "list_all (\<lambda>k. panel_times_out (example_browser ''yaxisVar'' k)) [0, 1, 2]
   \<and> is_sentinel (fst (fetch_one_menu_items ''yaxisVar'' 3 (example_browser ''yaxisVar'')))
   \<and> map_of (scrape_dropdowns example_browser [(''Y-Axis'', ''yaxisVar''), (''Year'', ''selectedYear'')])
        ''Y-Axis'' = Some (fst (fetch_one_menu_items ''yaxisVar'' 3 (example_browser ''yaxisVar'')))"
  using dropdown_never_visible [of example_browser "''yaxisVar''"
          "[(''Y-Axis'', ''yaxisVar''), (''Year'', ''selectedYear'')]" "''Y-Axis''"]
  by (simp add: example_browser_def never_opens_def panel_times_out_def)

section \<open>Grouping by period\<close>
















section \<open>Year-over-year growth\<close>







lemma round2_zero: "round2 0 = 0"
  by (simp add: round2_def round_half_even_def)





lemma round_half_even_eqI:
  fixes x :: "'a::floor_ceiling"
  assumes "of_int k - 1 / 2 < x" and "x < of_int k + 1 / 2"
  shows "round_half_even x = k"
proof -
  let ?f = "floor x"
  have lo: "of_int ?f \<le> x" and hi: "x < of_int ?f + 1" by linarith+
  have a: "x - of_int ?f < 1 / 2 \<Longrightarrow> ?f = k"
  proof -
    assume "x - of_int ?f < 1 / 2"
    then have "(of_int ?f :: 'a) < of_int k + 1" and "(of_int k :: 'a) < of_int ?f + 1"
      using assms lo by linarith+
    then have "?f < k + 1" and "k < ?f + 1"
      by (metis of_int_less_iff of_int_add of_int_1)+
    then show ?thesis by linarith
  qed
  have b: "1 / 2 < x - of_int ?f \<Longrightarrow> ?f + 1 = k"
  proof -
    assume "1 / 2 < x - of_int ?f"
    then have "(of_int ?f :: 'a) < of_int k" and "(of_int k :: 'a) < of_int ?f + 2"
      using assms hi by linarith+
    then have "?f < k" and "k < ?f + 2"
      by (metis of_int_less_iff of_int_add of_int_numeral)+
    then show ?thesis by linarith
  qed
  have c: "x - of_int ?f = 1 / 2 \<Longrightarrow> False"
  proof -
    assume "x - of_int ?f = 1 / 2"
    then have "(of_int k :: 'a) < of_int ?f + 1" and "(of_int ?f :: 'a) < of_int k"
      using assms by linarith+
    then have "k < ?f + 1" and "?f < k"
      by (metis of_int_less_iff of_int_add of_int_1)+
    then show False by linarith
  qed
  show ?thesis
    using a b c by (auto simp: round_half_even_def Let_def not_less)
qed

lemma round2_eqI:
  fixes x :: "'a::{floor_ceiling}"
  assumes "of_int k - 1 / 2 < x * 100" and "x * 100 < of_int k + 1 / 2"
  shows "round2 x = of_int k / 100"
  using round_half_even_eqI [OF assms] by (simp add: round2_def)




lemma r3: "round2 (10100 / 3 :: rat) = 336667 / 100"
  using round2_eqI [of 336667 "10100 / 3 :: rat"] by simp

lemma r4: "round2 (575 / 13 :: rat) = 4423 / 100"
  using round2_eqI [of 4423 "575 / 13 :: rat"] by simp

lemma example_by_state:
  "calculate_yoy_by_state example_data
     = [\<lparr>Category = ''Goa'', Current_Year = 2021, Current_Value = 104, Previous_Value = 3,
         YoY_Growth_Rate = 336667 / 100, YoY_Growth_Absolute = 101\<rparr>,
        \<lparr>Category = ''Goa'', Current_Year = 2022, Current_Value = 150, Previous_Value = 104,
         YoY_Growth_Rate = 4423 / 100, YoY_Growth_Absolute = 46\<rparr>]"
  by (simp add: calculate_yoy_by_state_def example_data_def reg_def unique_def yearly_totals_def
                growth_rate_def Let_def round2_zero r3 r4)

text \<open>
  The total computation divides without a test of the previous value: from a base of zero
  the rate of the next year is an infinity (NaN for \<open>0 / 0\<close>), where the computations by
  category, by state and by manufacturer give 0.
\<close>

lemma total_zero_base:
  "map Total_Growth_Rate (calculate_yoy_growth [reg 2020 0 ''BUS'' ''Goa'', reg 2021 5 ''BUS'' ''Goa''])
     = [NaN, PosInf]"
  by (simp add: calculate_yoy_growth_def reg_def shift1_def Let_def)




section \<open>Records per group\<close>






lemma example_years:
  "years_of (\<lambda>r. Vehicle_Category r = Some ''BUS'') example_data = {2020, 2021, 2022}"
  "years_of (\<lambda>r. State r = Some ''Goa'') example_data = {2020, 2021, 2022}"
  by (auto simp: years_of_def example_data_def reg_def)

lemma c: "card (years_of (\<lambda>r. Vehicle_Category r = Some ''BUS'') example_data) = 3"
    and s: "card (years_of (\<lambda>r. State r = Some ''Goa'') example_data) = 3"
  by (simp_all add: example_years)


section \<open>Compound annual growth rate\<close>





section \<open>Numeric cells\<close>

lemmas parse_defs = to_numeric_def parse_unsigned_def strip_def is_space_def split_sign_def
  is_digit_def digit_val_def parse_exponent_def pow10_def
















section \<open>Cleaning twice\<close>

lemma first_pass: "clean_all NUMERIC_COLUMNS VEHICLE_CATEGORIES raw_frame = Inr cleaned_once"
proof -
  have 1: "dropna_all raw_frame = raw_frame"
    by (simp add: dropna_all_def raw_frame_def n_rows_def row_at_def select_rows_def keep_where_def)
  have 2: "clean_numeric_columns NUMERIC_COLUMNS raw_frame
     = [(''Filter_State'', (Object, [Txt ''Karnataka(53)'', NA])),
        (''Vehicle Class'', (Object, [Txt ''BUS'', Txt ''CAR''])),
        (''TOTAL'', (Float64, [Numb 1234, Numb 5]))]"
    by (simp add: clean_numeric_columns_def NUMERIC_COLUMNS_def raw_frame_def cleaner_clean_cell_def
                  parse_defs)
  have 3: "clean_text_columns NUMERIC_COLUMNS
        [(''Filter_State'', (Object, [Txt ''Karnataka(53)'', NA])),
         (''Vehicle Class'', (Object, [Txt ''BUS'', Txt ''CAR''])),
         (''TOTAL'', (Float64, [Numb 1234, Numb 5]))]
     = [(''Filter_State'', (Object, [Txt ''Karnataka(53)'', NA])),
        (''Vehicle Class'', (Object, [Txt ''Bus'', Txt ''Car''])),
        (''TOTAL'', (Float64, [Numb 1234, Numb 5]))]"
    by (simp add: clean_text_columns_def clean_text_cell_def NUMERIC_COLUMNS_def strip_def is_space_def
                  lower_def title_def is_lower_def is_upper_def)
  have 4: "extract_temporal_data
        [(''Filter_State'', (Object, [Txt ''Karnataka(53)'', NA])),
         (''Vehicle Class'', (Object, [Txt ''Bus'', Txt ''Car''])),
         (''TOTAL'', (Float64, [Numb 1234, Numb 5]))]
     = [(''Filter_State'', (Object, [Txt ''Karnataka(53)'', NA])),
        (''Vehicle Class'', (Object, [Txt ''Bus'', Txt ''Car''])),
        (''TOTAL'', (Float64, [Numb 1234, Numb 5])),
        (''State'', (Object, [Txt ''Karnataka'', Txt ''nan'']))]"
    by (simp add: extract_temporal_data_def lower_def is_upper_def strip_def is_space_def)
  have 5: "vehicle_category NUMERIC_COLUMNS VEHICLE_CATEGORIES
        [(''Filter_State'', (Object, [Txt ''Karnataka(53)'', NA])),
         (''Vehicle Class'', (Object, [Txt ''Bus'', Txt ''Car''])),
         (''TOTAL'', (Float64, [Numb 1234, Numb 5])),
         (''State'', (Object, [Txt ''Karnataka'', Txt ''nan'']))]
     = [(''Filter_State'', (Object, [Txt ''Karnataka(53)'', NA])),
        (''Vehicle Class'', (Object, [Txt ''Bus'', Txt ''Car''])),
        (''TOTAL'', (Float64, [Numb 1234, Numb 5])),
        (''State'', (Object, [Txt ''Karnataka'', Txt ''nan''])),
        (''Vehicle_Category'', (Object, [Txt ''Bus'', Txt ''Car'']))]"
    by (simp add: vehicle_category_def)
  have 6: "remove_duplicates
       [(''Filter_State'', (Object, [Txt ''Karnataka(53)'', NA])),
        (''Vehicle Class'', (Object, [Txt ''Bus'', Txt ''Car''])),
        (''TOTAL'', (Float64, [Numb 1234, Numb 5])),
        (''State'', (Object, [Txt ''Karnataka'', Txt ''nan''])),
        (''Vehicle_Category'', (Object, [Txt ''Bus'', Txt ''Car'']))]
     = [(''Filter_State'', (Object, [Txt ''Karnataka(53)'', NA])),
        (''Vehicle Class'', (Object, [Txt ''Bus'', Txt ''Car''])),
        (''TOTAL'', (Float64, [Numb 1234, Numb 5])),
        (''State'', (Object, [Txt ''Karnataka'', Txt ''nan''])),
        (''Vehicle_Category'', (Object, [Txt ''Bus'', Txt ''Car'']))]"
    by (simp add: remove_duplicates_def first_occurrence_def n_rows_def row_at_def select_rows_def
                  keep_where_def Let_def)
  have 7: "handle_missing_values
       [(''Filter_State'', (Object, [Txt ''Karnataka(53)'', NA])),
        (''Vehicle Class'', (Object, [Txt ''Bus'', Txt ''Car''])),
        (''TOTAL'', (Float64, [Numb 1234, Numb 5])),
        (''State'', (Object, [Txt ''Karnataka'', Txt ''nan''])),
        (''Vehicle_Category'', (Object, [Txt ''Bus'', Txt ''Car'']))]
     = cleaned_once"
    by (simp add: handle_missing_values_def cleaned_once_def fill_text_def lower_def is_upper_def)
  show ?thesis
    unfolding clean_all_def 1 2 3 4 5 6 7
    by (simp add: is_empty_def raw_frame_def n_rows_def)
qed

lemma str_of_num_examples: "str_of_num 1234 = ''1234''" "str_of_num 5 = ''5''"
  by (simp_all add: str_of_num_def show_nat.simps digit_char_def)

lemma second_pass: "clean_all NUMERIC_COLUMNS VEHICLE_CATEGORIES cleaned_once = Inr cleaned_twice"
proof -
  have 1: "dropna_all cleaned_once = cleaned_once"
    by (simp add: dropna_all_def cleaned_once_def n_rows_def row_at_def select_rows_def keep_where_def)
  have 2: "clean_numeric_columns NUMERIC_COLUMNS cleaned_once = cleaned_once"
    by (simp add: clean_numeric_columns_def NUMERIC_COLUMNS_def cleaned_once_def cleaner_clean_cell_def
                  str_of_num_examples parse_defs)
  have 3: "clean_text_columns NUMERIC_COLUMNS cleaned_once
     = [(''Filter_State'', (Object, [Txt ''Karnataka(53)'', Txt ''Unknown State''])),
        (''Vehicle Class'', (Object, [Txt ''Bus'', Txt ''Car''])),
        (''TOTAL'', (Float64, [Numb 1234, Numb 5])),
        (''State'', (Object, [Txt ''Karnataka'', NA])),
        (''Vehicle_Category'', (Object, [Txt ''Bus'', Txt ''Car'']))]"
    by (simp add: clean_text_columns_def clean_text_cell_def NUMERIC_COLUMNS_def cleaned_once_def
                  strip_def is_space_def lower_def title_def is_lower_def is_upper_def)
  have 4: "extract_temporal_data
       [(''Filter_State'', (Object, [Txt ''Karnataka(53)'', Txt ''Unknown State''])),
        (''Vehicle Class'', (Object, [Txt ''Bus'', Txt ''Car''])),
        (''TOTAL'', (Float64, [Numb 1234, Numb 5])),
        (''State'', (Object, [Txt ''Karnataka'', NA])),
        (''Vehicle_Category'', (Object, [Txt ''Bus'', Txt ''Car'']))]
     = cleaned_twice"
    by (simp add: extract_temporal_data_def cleaned_twice_def lower_def is_upper_def strip_def is_space_def)
  have 5: "vehicle_category NUMERIC_COLUMNS VEHICLE_CATEGORIES cleaned_twice = cleaned_twice"
    by (simp add: vehicle_category_def cleaned_twice_def)
  have 6: "remove_duplicates cleaned_twice = cleaned_twice"
    by (simp add: remove_duplicates_def cleaned_twice_def first_occurrence_def n_rows_def row_at_def
                  select_rows_def keep_where_def Let_def)
  have 7: "handle_missing_values cleaned_twice = cleaned_twice"
    by (simp add: handle_missing_values_def cleaned_twice_def)
  show ?thesis
    unfolding clean_all_def 1 2 3 4 5 6 7
    by (simp add: is_empty_def cleaned_once_def n_rows_def)
qed

text \<open>
  Claim C5 at a frame with a missing state. The first cleaning turns the missing
  \<open>Filter_State\<close> into the text \<open>nan\<close> of the column \<open>State\<close>, which the filling of missing
  values then leaves alone; the second cleaning reads \<open>State\<close> from the filled
  \<open>Filter_State\<close> and returns \<open>Unknown State\<close>. The two results differ.
\<close>

theorem cleaning_twice_differs:
  "clean_all NUMERIC_COLUMNS VEHICLE_CATEGORIES raw_frame = Inr cleaned_once
   \<and> clean_all NUMERIC_COLUMNS VEHICLE_CATEGORIES cleaned_once = Inr cleaned_twice
   \<and> map_of cleaned_once ''State'' = Some (Object, [Txt ''Karnataka'', Txt ''nan''])
   \<and> map_of cleaned_twice ''State'' = Some (Object, [Txt ''Karnataka'', Txt ''Unknown State''])
   \<and> cleaned_twice \<noteq> cleaned_once"
  by (simp add: first_pass second_pass) (simp add: cleaned_once_def cleaned_twice_def)


end
